theory Spec2Isabelle
  imports Main "HOL-Library.Word"
begin

section \<open>Storage handlers of the port layer REST API\<close>

text \<open>
  A shallow embedding of \<^verbatim>\<open>lib/apiservers/portlayer/restapi/handlers/storage_handlers.go\<close>.
  Every handler is a function of the request parameters and of an environment \<open>env\<close>
  that gives the results of the calls the handler makes outside its own file (the lookup
  caches, the backend packages, the helpers of \<^verbatim>\<open>util\<close>, \<^verbatim>\<open>strconv\<close> and \<^verbatim>\<open>net/url\<close>).
  A handler returns the list of calls it made on the caches and backends, in order and
  with the arguments passed, together with its responder. A Go panic is an outcome of
  its own. Tracing and logging are left out.
\<close>

subsection \<open>Go errors\<close>

text \<open>
  The error values the handlers tell apart. \<open>os_ErrNotExist\<close> and \<open>os_ErrExist\<close>
  are the two sentinel values of package \<^verbatim>\<open>os\<close>; \<open>syscall_Errno\<close> carries the errno and
  the text its \<^verbatim>\<open>Error()\<close> returns; the three wrappers are the ones \<^verbatim>\<open>os.underlyingError\<close>
  unwraps. \<open>other_error\<close> is an error of any other dynamic type (\<^verbatim>\<open>errors.New\<close>,
  \<^verbatim>\<open>fmt.Errorf\<close>), with its text.

  Modelled from the spec: the error types \<^verbatim>\<open>ErrImageInUse\<close> and \<^verbatim>\<open>VolumeStoreNotFoundError\<close>
  are declared in the storage port layer, outside this file. They are the kinds
  \<^verbatim>\<open>InUse\<close> and \<^verbatim>\<open>NotFound\<close> (unknown store) of the error taxonomy: types of their own, that
  the handlers recognise by type assertion. \<open>spl_ErrImageInUse\<close> and
  \<open>spl_VolumeStoreNotFoundError\<close> hold the text of \<^verbatim>\<open>Error()\<close>.
\<close>

datatype go_error =
    os_ErrNotExist
  | os_ErrExist
  | syscall_Errno nat string
  | os_PathError string string go_error
  | os_LinkError string string string go_error
  | os_SyscallError string go_error
  | spl_ErrImageInUse string
  | spl_VolumeStoreNotFoundError string
  | other_error string

fun Error :: "go_error \<Rightarrow> string" where
  "Error os_ErrNotExist = ''file does not exist''"
| "Error os_ErrExist = ''file already exists''"
| "Error (syscall_Errno n text) = text"
| "Error (os_PathError opn path err) = opn @ '' '' @ path @ '': '' @ Error err"
| "Error (os_LinkError opn old new err) = opn @ '' '' @ old @ '' '' @ new @ '': '' @ Error err"
| "Error (os_SyscallError sc err) = sc @ '': '' @ Error err"
| "Error (spl_ErrImageInUse msg) = msg"
| "Error (spl_VolumeStoreNotFoundError msg) = msg"
| "Error (other_error msg) = msg"

definition ENOENT :: nat where "ENOENT = 2"
definition EEXIST :: nat where "EEXIST = 17"
definition ENOTEMPTY :: nat where "ENOTEMPTY = 39"

fun underlyingError :: "go_error \<Rightarrow> go_error" where
  "underlyingError (os_PathError opn path err) = err"
| "underlyingError (os_LinkError opn old new err) = err"
| "underlyingError (os_SyscallError sc err) = err"
| "underlyingError err = err"

fun is_errno :: "nat \<Rightarrow> go_error \<Rightarrow> bool" where
  "is_errno n (syscall_Errno m text) = (m = n)"
| "is_errno n err = False"

definition os_IsExist :: "go_error \<Rightarrow> bool" where
  "os_IsExist err =
     (let e = underlyingError err
      in is_errno EEXIST e \<or> is_errno ENOTEMPTY e \<or> e = os_ErrExist)"

definition os_IsNotExist :: "go_error \<Rightarrow> bool" where
  "os_IsNotExist err =
     (let e = underlyingError err
      in is_errno ENOENT e \<or> e = os_ErrNotExist)"


fun is_VolumeStoreNotFoundError :: "go_error \<Rightarrow> bool" where
  "is_VolumeStoreNotFoundError (spl_VolumeStoreNotFoundError msg) = True"
| "is_VolumeStoreNotFoundError err = False"

text \<open>\<^verbatim>\<open>fmt.Errorf(prefix + "%s", err)\<close>: a fresh error whose text ends in the text of \<open>err\<close>.\<close>

definition fmt_Errorf :: "string \<Rightarrow> string \<Rightarrow> go_error" where
  "fmt_Errorf prefix arg = other_error (prefix @ arg)"

datatype panic = NilDereference | log_Panicf string

datatype 'a outcome = Panic panic | Return 'a

subsection \<open>Data\<close>

type_synonym bytes = string

record Userinfo =
  Username :: string

text \<open>
  A \<^verbatim>\<open>url.URL\<close>, with the fields the handlers read. \<open>URL_String\<close> is what the
  method \<^verbatim>\<open>String()\<close> returns for the value.
\<close>

record URL =
  Scheme :: string
  User :: "Userinfo option"
  Host :: string
  Path :: string
  URL_String :: string

record Image =
  Image_ID :: string
  SelfLink :: "URL option"
  ParentLink :: "URL option"
  Image_Store :: URL
  Image_Metadata :: "(string \<rightharpoonup> bytes) option"

record Disk =
  DiskPath :: URL

record Volume =
  Volume_ID :: string
  Volume_Label :: string
  Volume_Store :: URL
  Device :: Disk
  Info :: "string \<rightharpoonup> bytes"

record Handle =
  Handle_String :: string

record NfsMount =
  Target :: URL
  Hostname :: string
  UID :: "32 word"
  GID :: "32 word"

subsection \<open>Wire models and responders\<close>

definition http_StatusCreated :: int where "http_StatusCreated = 201"
definition http_StatusNotFound :: int where "http_StatusNotFound = 404"
definition http_StatusConflict :: int where "http_StatusConflict = 409"
definition http_StatusLocked :: int where "http_StatusLocked = 423"
definition http_StatusInternalServerError :: int where "http_StatusInternalServerError = 500"

record models_Error =
  Code :: int
  Message :: string

record models_StoreURL =
  StoreURL_Code :: int
  StoreURL_URL :: string

record models_Image =
  mImage_ID :: string
  mImage_SelfLink :: string
  mImage_Parent :: string
  mImage_Metadata :: "string \<rightharpoonup> string"
  mImage_Store :: string

record models_VolumeRequest =
  Capacity :: "64 word"
  Req_Driver :: string
  Req_Metadata :: "string \<rightharpoonup> string"
  Req_Name :: string
  Req_Store :: string

record models_VolumeResponse =
  Resp_Driver :: string
  Resp_Name :: string
  Resp_Label :: string
  Resp_Store :: string
  Resp_Metadata :: "string \<rightharpoonup> string"

datatype responder =
    CreateImageStoreConflict models_Error
  | CreateImageStoreDefault int models_Error
  | CreateImageStoreCreated models_StoreURL
  | DeleteImageDefault int models_Error
  | DeleteImageOK "models_Image list"
  | WriteImageDefault int models_Error
  | WriteImageCreated models_Image
  | CreateVolumeInternalServerError models_Error
  | CreateVolumeConflict models_Error
  | CreateVolumeNotFound models_Error
  | CreateVolumeCreated models_VolumeResponse
  | GetVolumeNotFound models_Error
  | ListVolumesInternalServerError models_Error
  | GetVolumeOK models_VolumeResponse
  | VolumeJoinInternalServerError models_Error
  | VolumeJoinOK string

subsection \<open>The handler receiver, the environment and the calls\<close>

record ('ic, 'vc) StorageHandlersImpl =
  imageCache :: 'ic
  volumeCache :: 'vc

datatype ('is, 'vs, 'dsh) call =
    Call_vsphere_NewImageStore URL
  | Call_NewLookupCache 'is
  | Call_NewVolumeLookupCache
  | Call_nfs_NewVolumeStore string NfsMount
  | Call_datastore_NewHelperFromURL URL
  | Call_vsphere_NewVolumeStore string 'dsh
  | Call_AddStore string 'vs
  | Call_CreateImageStore string
  | Call_DeleteBranch Image "URL list"
  | Call_WriteImage Image string "(string \<rightharpoonup> bytes) option" string bytes
  | Call_VolumeCreate string URL "64 word" "string \<rightharpoonup> bytes"
  | Call_VolumeGet string
  | Call_GetHandle string
  | Call_nfs_VolumeJoin "Handle option" Volume string "string \<rightharpoonup> string"
  | Call_vsphere_VolumeJoin "Handle option" Volume string "string \<rightharpoonup> string"

record ('is, 'ic, 'vc, 'vs, 'dsh) env =
  vsphere_NewImageStore :: "URL \<Rightarrow> go_error + 'is"
  NewLookupCache :: "'is \<Rightarrow> 'ic"
  NewVolumeLookupCache :: 'vc
  nfs_DefaultUID :: int
  strconv_Atoi :: "string \<Rightarrow> go_error + int"
  nfs_NewVolumeStore :: "string \<Rightarrow> NfsMount \<Rightarrow> go_error + 'vs"
  datastore_NewHelperFromURL :: "URL \<Rightarrow> go_error + 'dsh"
  vsphere_NewVolumeStore :: "string \<Rightarrow> 'dsh \<Rightarrow> go_error + 'vs"
  AddStore :: "'vc \<Rightarrow> string \<Rightarrow> 'vs \<Rightarrow> go_error option"
  ic_CreateImageStore :: "'ic \<Rightarrow> string \<Rightarrow> go_error + URL"
  util_ImageURL :: "string \<Rightarrow> string \<Rightarrow> go_error + URL"
  spl_Parse :: "URL \<Rightarrow> go_error + Image"
  url_Parse :: "string \<Rightarrow> go_error + URL"
  DeleteBranch :: "'ic \<Rightarrow> Image \<Rightarrow> URL list \<Rightarrow> go_error + Image list"
  util_ImageStoreNameToURL :: "string \<Rightarrow> go_error + URL"
  ic_WriteImage ::
    "'ic \<Rightarrow> Image \<Rightarrow> string \<Rightarrow> (string \<rightharpoonup> bytes) option \<Rightarrow> string \<Rightarrow> bytes
      \<Rightarrow> go_error + Image"
  util_VolumeStoreNameToURL :: "string \<Rightarrow> go_error + URL"
  VolumeCreate ::
    "'vc \<Rightarrow> string \<Rightarrow> URL \<Rightarrow> 64 word \<Rightarrow> (string \<rightharpoonup> bytes) \<Rightarrow> go_error + Volume"
  VolumeGet :: "'vc \<Rightarrow> string \<Rightarrow> Volume option \<times> go_error option"
  util_VolumeStoreName :: "URL \<Rightarrow> go_error + string"
  epl_GetHandle :: "string \<Rightarrow> Handle option"
  nfs_VolumeJoin ::
    "Handle option \<Rightarrow> Volume \<Rightarrow> string \<Rightarrow> (string \<rightharpoonup> string) \<Rightarrow> go_error + Handle"
  vsphere_VolumeJoin ::
    "Handle option \<Rightarrow> Volume \<Rightarrow> string \<Rightarrow> (string \<rightharpoonup> string) \<Rightarrow> go_error + Handle"
  fmt_Volume :: "Volume \<Rightarrow> string"

definition nfsScheme :: string where "nfsScheme = ''nfs''"
definition dsScheme :: string where "dsScheme = ''ds''"

subsection \<open>CreateImageStore\<close>

record CreateImageStoreParams =
  Body_Name :: string

definition CreateImageStore ::
  "('is, 'ic, 'vc, 'vs, 'dsh) env \<Rightarrow> ('ic, 'vc) StorageHandlersImpl \<Rightarrow> CreateImageStoreParams
    \<Rightarrow> ('is, 'vs, 'dsh) call list \<times> responder" where
  "CreateImageStore env h params =
     ([Call_CreateImageStore (Body_Name params)],
      case ic_CreateImageStore env (imageCache h) (Body_Name params) of
        Inl err \<Rightarrow>
          if os_IsExist err
          then CreateImageStoreConflict
                 \<lparr>Code = http_StatusConflict,
                  Message = ''An image store with that name already exists''\<rparr>
          else CreateImageStoreDefault http_StatusInternalServerError
                 \<lparr>Code = http_StatusInternalServerError, Message = Error err\<rparr>
      | Inr url \<Rightarrow>
          CreateImageStoreCreated
            \<lparr>StoreURL_Code = http_StatusCreated, StoreURL_URL = URL_String url\<rparr>)"

subsection \<open>Utility functions\<close>

text \<open>
  Conversions between a Go string and a byte slice keep the bytes; both are character
  lists here.
\<close>

definition go_bytes :: "string \<Rightarrow> bytes" where
  "go_bytes s = s"

definition go_string :: "bytes \<Rightarrow> string" where
  "go_string b = b"

definition convertImage :: "Image \<Rightarrow> models_Image" where
  "convertImage img =
     (let parent = (case ParentLink img of None \<Rightarrow> '''' | Some l \<Rightarrow> URL_String l);
          selfLink = (case SelfLink img of None \<Rightarrow> '''' | Some l \<Rightarrow> URL_String l);
          meta = (case Image_Metadata img of
                    None \<Rightarrow> Map.empty
                  | Some m \<Rightarrow> (\<lambda>k. map_option go_string (m k)))
      in \<lparr>mImage_ID = Image_ID img,
          mImage_SelfLink = selfLink,
          mImage_Parent = parent,
          mImage_Metadata = meta,
          mImage_Store = URL_String (Image_Store img)\<rparr>)"

definition volumeToCreateResponse :: "Volume \<Rightarrow> models_VolumeRequest \<Rightarrow> models_VolumeResponse" where
  "volumeToCreateResponse volume model =
     \<lparr>Resp_Driver = Req_Driver model,
      Resp_Name = Volume_ID volume,
      Resp_Label = Volume_Label volume,
      Resp_Store = Req_Store model,
      Resp_Metadata = Req_Metadata model\<rparr>"

definition createMetadataMap :: "Volume \<Rightarrow> (string \<rightharpoonup> string)" where
  "createMetadataMap volume = (\<lambda>k. map_option go_string (Info volume k))"

text \<open>
  \<open>fillVolumeModel\<close> takes a pointer and reads \<^verbatim>\<open>volume.Store\<close> first: a nil
  pointer (\<open>None\<close>) is a nil dereference.
\<close>

definition fillVolumeModel ::
  "('is, 'ic, 'vc, 'vs, 'dsh) env \<Rightarrow> Volume option \<Rightarrow> (go_error + models_VolumeResponse) outcome" where
  "fillVolumeModel env volume =
     (case volume of
        None \<Rightarrow> Panic NilDereference
      | Some v \<Rightarrow>
          (case util_VolumeStoreName env (Volume_Store v) of
             Inl err \<Rightarrow> Return (Inl err)
           | Inr storeName \<Rightarrow>
               Return (Inr \<lparr>Resp_Driver = ''vsphere'',
                            Resp_Name = Volume_ID v,
                            Resp_Label = Volume_Label v,
                            Resp_Store = storeName,
                            Resp_Metadata = createMetadataMap v\<rparr>)))"

subsection \<open>DeleteImage\<close>





subsection \<open>WriteImage\<close>

record WriteImageParams =
  WI_StoreName :: string
  ParentID :: string
  ImageID :: string
  Metadatakey :: "string option"
  Metadataval :: "string option"
  Sum :: string
  ImageFile :: bytes

definition WriteImage ::
  "('is, 'ic, 'vc, 'vs, 'dsh) env \<Rightarrow> ('ic, 'vc) StorageHandlersImpl \<Rightarrow> WriteImageParams
    \<Rightarrow> ('is, 'vs, 'dsh) call list \<times> responder" where
  "WriteImage env h params =
     (case util_ImageStoreNameToURL env (WI_StoreName params) of
        Inl err \<Rightarrow>
          ([], WriteImageDefault http_StatusInternalServerError
                 \<lparr>Code = http_StatusInternalServerError, Message = Error err\<rparr>)
      | Inr u \<Rightarrow>
          (let parent = \<lparr>Image_ID = ParentID params, SelfLink = None, ParentLink = None,
                         Image_Store = u, Image_Metadata = None\<rparr>;
               meta = (case (Metadatakey params, Metadataval params) of
                         (Some key, Some val) \<Rightarrow> Some [key \<mapsto> go_bytes val]
                       | _ \<Rightarrow> None)
           in ([Call_WriteImage parent (ImageID params) meta (Sum params) (ImageFile params)],
               case ic_WriteImage env (imageCache h) parent (ImageID params) meta (Sum params)
                      (ImageFile params) of
                 Inl err \<Rightarrow>
                   WriteImageDefault http_StatusInternalServerError
                     \<lparr>Code = http_StatusInternalServerError, Message = Error err\<rparr>
               | Inr img \<Rightarrow> WriteImageCreated (convertImage img))))"

subsection \<open>CreateVolume\<close>

record CreateVolumeParams =
  VolumeRequest :: models_VolumeRequest

text \<open>
  \<^verbatim>\<open>Capacity\<close> is an \<^verbatim>\<open>int64\<close>, read signed; \<^verbatim>\<open>capacity\<close> is a \<^verbatim>\<open>uint64\<close> and the
  product \<^verbatim>\<open>capacity*1024\<close> wraps at \<open>2 ^ 64\<close>.
\<close>

definition CreateVolume ::
  "('is, 'ic, 'vc, 'vs, 'dsh) env \<Rightarrow> ('ic, 'vc) StorageHandlersImpl \<Rightarrow> CreateVolumeParams
    \<Rightarrow> ('is, 'vs, 'dsh) call list \<times> responder" where
  "CreateVolume env h params =
     (let req = VolumeRequest params
      in case util_VolumeStoreNameToURL env (Req_Store req) of
           Inl err \<Rightarrow>
             ([], CreateVolumeInternalServerError
                    \<lparr>Code = http_StatusInternalServerError, Message = Error err\<rparr>)
         | Inr storeURL \<Rightarrow>
             (let byteMap = (\<lambda>key. map_option go_bytes (Req_Metadata req key));
                  capacity = (if sint (Capacity req) < 0 then (1024 :: 64 word)
                              else Capacity req)
              in ([Call_VolumeCreate (Req_Name req) storeURL (capacity * 1024) byteMap],
                  case VolumeCreate env (volumeCache h) (Req_Name req) storeURL
                         (capacity * 1024) byteMap of
                    Inl err \<Rightarrow>
                      if os_IsExist err
                      then CreateVolumeConflict
                             \<lparr>Code = http_StatusConflict, Message = Error err\<rparr>
                      else if is_VolumeStoreNotFoundError err
                      then CreateVolumeNotFound
                             \<lparr>Code = http_StatusNotFound, Message = Error err\<rparr>
                      else CreateVolumeInternalServerError
                             \<lparr>Code = http_StatusInternalServerError, Message = Error err\<rparr>
                  | Inr volume \<Rightarrow> CreateVolumeCreated (volumeToCreateResponse volume req))))"

subsection \<open>GetVolume\<close>

record GetVolumeParams =
  GV_Name :: string

text \<open>
  \<^verbatim>\<open>VolumeGet\<close> returns a pointer and an error, and the handler compares the error with
  the sentinel only, so both results are kept: the pointer may be nil whatever the error.
\<close>

definition GetVolume ::
  "('is, 'ic, 'vc, 'vs, 'dsh) env \<Rightarrow> ('ic, 'vc) StorageHandlersImpl \<Rightarrow> GetVolumeParams
    \<Rightarrow> ('is, 'vs, 'dsh) call list \<times> responder outcome" where
  "GetVolume env h params =
     (case VolumeGet env (volumeCache h) (GV_Name params) of
        (data, err) \<Rightarrow>
          ([Call_VolumeGet (GV_Name params)],
           if err = Some os_ErrNotExist
           then Return (GetVolumeNotFound
                          \<lparr>Code = http_StatusNotFound, Message = Error os_ErrNotExist\<rparr>)
           else (case fillVolumeModel env data of
                   Panic p \<Rightarrow> Panic p
                 | Return (Inl err') \<Rightarrow>
                     Return (ListVolumesInternalServerError
                               \<lparr>Code = http_StatusInternalServerError, Message = Error err'\<rparr>)
                 | Return (Inr response) \<Rightarrow> Return (GetVolumeOK response))))"

subsection \<open>VolumeJoin\<close>

record VolumeJoinParams =
  VJ_Name :: string
  JoinArgs_Handle :: string
  JoinArgs_MountPath :: string
  JoinArgs_Flags :: "string \<rightharpoonup> string"

text \<open>
  \<open>fmt_Volume env v\<close> is the text \<^verbatim>\<open>%s\<close> prints for the struct \<^verbatim>\<open>*volume\<close>. A nil
  volume with a nil error is dereferenced at the switch.
\<close>

definition VolumeJoin ::
  "('is, 'ic, 'vc, 'vs, 'dsh) env \<Rightarrow> ('ic, 'vc) StorageHandlersImpl \<Rightarrow> VolumeJoinParams
    \<Rightarrow> ('is, 'vs, 'dsh) call list \<times> responder outcome" where
  "VolumeJoin env h params =
     (let actualHandle = epl_GetHandle env (JoinArgs_Handle params);
          calls = [Call_GetHandle (JoinArgs_Handle params), Call_VolumeGet (VJ_Name params)]
      in case VolumeGet env (volumeCache h) (VJ_Name params) of
           (volume, Some err) \<Rightarrow>
             (calls, Return (VolumeJoinInternalServerError
                               \<lparr>Code = http_StatusInternalServerError, Message = Error err\<rparr>))
         | (None, None) \<Rightarrow> (calls, Panic NilDereference)
         | (Some v, None) \<Rightarrow>
             (let scheme = Scheme (DiskPath (Device v));
                  (joinCalls, joined) =
                    (if scheme = nfsScheme
                     then ([Call_nfs_VolumeJoin actualHandle v (JoinArgs_MountPath params)
                              (JoinArgs_Flags params)],
                           nfs_VolumeJoin env actualHandle v (JoinArgs_MountPath params)
                             (JoinArgs_Flags params))
                     else if scheme = dsScheme
                     then ([Call_vsphere_VolumeJoin actualHandle v (JoinArgs_MountPath params)
                              (JoinArgs_Flags params)],
                           vsphere_VolumeJoin env actualHandle v (JoinArgs_MountPath params)
                             (JoinArgs_Flags params))
                     else ([], Inl (other_error (''unknown scheme ('' @ scheme @
                                      '') for Volume ('' @ fmt_Volume env v @ '')''))))
              in (calls @ joinCalls,
                  case joined of
                    Inl err \<Rightarrow>
                      Return (VolumeJoinInternalServerError
                                \<lparr>Code = http_StatusInternalServerError, Message = Error err\<rparr>)
                  | Inr handle \<Rightarrow> Return (VolumeJoinOK (Handle_String handle)))))"

subsection \<open>Configuration\<close>

text \<open>
  Modelled from the spec: \<^verbatim>\<open>nfs.NewMount\<close> is declared in the nfs package, outside this
  file. The network-mount backend is parameterized by a mount target and an ownership
  identity: the mount keeps the four arguments it is made from.
\<close>

definition nfs_NewMount :: "URL \<Rightarrow> string \<Rightarrow> 32 word \<Rightarrow> 32 word \<Rightarrow> NfsMount" where
  "nfs_NewMount t hostname uid gid = \<lparr>Target = t, Hostname = hostname, UID = uid, GID = gid\<rparr>"

text \<open>
  The switch in the loop of \<open>configureVolumeStores\<close>, for one entry of
  \<^verbatim>\<open>spl.Config.VolumeLocations\<close>: the store built for the location, or the error the
  function returns. \<^verbatim>\<open>uint32(uid)\<close> keeps the low 32 bits.
\<close>

definition volumeStoreOf ::
  "('is, 'ic, 'vc, 'vs, 'dsh) env \<Rightarrow> string \<Rightarrow> URL \<Rightarrow> ('is, 'vs, 'dsh) call list \<times> (go_error + 'vs)" where
  "volumeStoreOf env name dsurl =
     (if Scheme dsurl = nfsScheme
      then (case (case User dsurl of
                    None \<Rightarrow> Inr (nfs_DefaultUID env)
                  | Some user \<Rightarrow>
                      if Username user \<noteq> '''' then strconv_Atoi env (Username user)
                      else Inr (nfs_DefaultUID env)) of
              Inl err \<Rightarrow> ([], Inl err)
            | Inr uid \<Rightarrow>
                (let mnt = nfs_NewMount dsurl ''vic'' (word_of_int uid) (word_of_int uid)
                 in ([Call_nfs_NewVolumeStore name mnt], nfs_NewVolumeStore env name mnt)))
      else if Scheme dsurl = dsScheme
      then (case datastore_NewHelperFromURL env dsurl of
              Inl err \<Rightarrow>
                ([Call_datastore_NewHelperFromURL dsurl],
                 Inl (fmt_Errorf ''cannot find datastores: '' (Error err)))
            | Inr ds \<Rightarrow>
                ([Call_datastore_NewHelperFromURL dsurl, Call_vsphere_NewVolumeStore name ds],
                 case vsphere_NewVolumeStore env name ds of
                   Inl err \<Rightarrow>
                     Inl (fmt_Errorf ''cannot instantiate the volume store: '' (Error err))
                 | Inr vs \<Rightarrow> Inr vs))
      else ([], Inl (fmt_Errorf ''unknown scheme for '' (URL_String dsurl))))"

text \<open>
  The loop over the map \<^verbatim>\<open>spl.Config.VolumeLocations\<close>, given as the list of its
  entries in the order the iteration visits them. The first error ends the function.
\<close>

fun configureLoop ::
  "('is, 'ic, 'vc, 'vs, 'dsh) env \<Rightarrow> 'vc \<Rightarrow> (string \<times> URL) list
    \<Rightarrow> ('is, 'vs, 'dsh) call list \<times> go_error option" where
  "configureLoop env vc [] = ([], None)"
| "configureLoop env vc ((name, dsurl) # rest) =
     (case volumeStoreOf env name dsurl of
        (cs, Inl err) \<Rightarrow> (cs, Some err)
      | (cs, Inr vs) \<Rightarrow>
          (case AddStore env vc name vs of
             Some err \<Rightarrow>
               (cs @ [Call_AddStore name vs],
                Some (fmt_Errorf ''volume addition error '' (Error err)))
           | None \<Rightarrow>
               (case configureLoop env vc rest of
                  (cs', r) \<Rightarrow> (cs @ [Call_AddStore name vs] @ cs', r))))"

text \<open>
  \<open>configureVolumeStores\<close> returns its calls, its error and the cache it has stored
  in \<^verbatim>\<open>h.volumeCache\<close>.
\<close>

definition configureVolumeStores ::
  "('is, 'ic, 'vc, 'vs, 'dsh) env \<Rightarrow> (string \<times> URL) list
    \<Rightarrow> ('is, 'vs, 'dsh) call list \<times> go_error option \<times> 'vc" where
  "configureVolumeStores env VolumeLocations =
     (let vc = NewVolumeLookupCache env
      in case configureLoop env vc VolumeLocations of
           (cs, r) \<Rightarrow> (Call_NewVolumeLookupCache # cs, r, vc))"

text \<open>
  \<open>Configure\<close> on the configuration \<^verbatim>\<open>spl.Config\<close>: the image-store locations and the
  volume locations. It returns the receiver with both caches set, or panics.
\<close>

definition Configure ::
  "('is, 'ic, 'vc, 'vs, 'dsh) env \<Rightarrow> URL list \<Rightarrow> (string \<times> URL) list
    \<Rightarrow> ('is, 'vs, 'dsh) call list \<times> ('ic, 'vc) StorageHandlersImpl outcome" where
  "Configure env ImageStores VolumeLocations =
     (case ImageStores of
        [] \<Rightarrow>
          ([], Panic (log_Panicf
                 ''No image stores provided; unable to instantiate storage layer''))
      | imageStoreURL # others \<Rightarrow>
          (case vsphere_NewImageStore env imageStoreURL of
             Inl err \<Rightarrow>
               ([Call_vsphere_NewImageStore imageStoreURL],
                Panic (log_Panicf (''Cannot instantiate storage layer: '' @ Error err)))
           | Inr ds \<Rightarrow>
               (case configureVolumeStores env VolumeLocations of
                  (cs, r, vc) \<Rightarrow>
                    ([Call_vsphere_NewImageStore imageStoreURL, Call_NewLookupCache ds] @ cs,
                     case r of
                       Some err \<Rightarrow>
                         Panic (log_Panicf
                           (''Cannot instantiate volume stores: '' @ Error err))
                     | None \<Rightarrow>
                         Return \<lparr>imageCache = NewLookupCache env ds, volumeCache = vc\<rparr>))))"

subsection \<open>A concrete environment\<close>

text \<open>
  One environment in which every call succeeds, a receiver and sample values; single
  results are overridden with record update where a failing call is needed.
\<close>

definition sample_url :: "string \<Rightarrow> string \<Rightarrow> URL" where
  "sample_url scheme host =
     \<lparr>Scheme = scheme, User = None, Host = host, Path = ''/store'',
      URL_String = scheme @ ''://'' @ host @ ''/store''\<rparr>"

definition sample_volume :: "string \<Rightarrow> string \<Rightarrow> Volume" where
  "sample_volume name scheme =
     \<lparr>Volume_ID = name, Volume_Label = name, Volume_Store = sample_url ''ds'' ''store'',
      Device = \<lparr>DiskPath = sample_url scheme ''disk''\<rparr>, Info = Map.empty\<rparr>"

definition sample_image :: "string \<Rightarrow> Image" where
  "sample_image ident =
     \<lparr>Image_ID = ident, SelfLink = Some (sample_url ''ds'' ident), ParentLink = None,
      Image_Store = sample_url ''ds'' ''images'', Image_Metadata = None\<rparr>"

definition sample_env :: "(string, string, string, string, string) env" where
  "sample_env =
     \<lparr>vsphere_NewImageStore = (\<lambda>u. Inr (''imagestore '' @ URL_String u)),
      NewLookupCache = (\<lambda>ds. ''cache of '' @ ds),
      NewVolumeLookupCache = ''volume cache'',
      nfs_DefaultUID = 1000,
      strconv_Atoi = (\<lambda>s. Inl (other_error ''invalid syntax'')),
      nfs_NewVolumeStore = (\<lambda>name mnt. Inr (''nfs store '' @ name)),
      datastore_NewHelperFromURL = (\<lambda>u. Inr (''helper '' @ URL_String u)),
      vsphere_NewVolumeStore = (\<lambda>name ds. Inr (''vsphere store '' @ name)),
      AddStore = (\<lambda>vc name vs. None),
      ic_CreateImageStore = (\<lambda>ic name. Inr (sample_url ''ds'' name)),
      util_ImageURL = (\<lambda>store ident. Inr (sample_url ''ds'' ident)),
      spl_Parse = (\<lambda>u. Inr (sample_image (Host u))),
      url_Parse = (\<lambda>s. Inr (sample_url ''ds'' s)),
      DeleteBranch = (\<lambda>ic img keep. Inr [img]),
      util_ImageStoreNameToURL = (\<lambda>name. Inr (sample_url ''ds'' name)),
      ic_WriteImage = (\<lambda>ic parent ident meta sum file. Inr (sample_image ident)),
      util_VolumeStoreNameToURL = (\<lambda>name. Inr (sample_url ''ds'' name)),
      VolumeCreate = (\<lambda>vc name u cap meta. Inr (sample_volume name ''ds'')),
      VolumeGet = (\<lambda>vc name. (Some (sample_volume name ''ds''), None)),
      util_VolumeStoreName = (\<lambda>u. Inr (Host u)),
      epl_GetHandle = (\<lambda>s. Some \<lparr>Handle_String = s\<rparr>),
      nfs_VolumeJoin = (\<lambda>hd v mp fl. Inr \<lparr>Handle_String = ''nfs joined''\<rparr>),
      vsphere_VolumeJoin = (\<lambda>hd v mp fl. Inr \<lparr>Handle_String = ''vsphere joined''\<rparr>),
      fmt_Volume = Volume_ID\<rparr>"

definition sample_h :: "(string, string) StorageHandlersImpl" where
  "sample_h = \<lparr>imageCache = ''cache of imagestore'', volumeCache = ''volume cache''\<rparr>"

definition sample_request :: models_VolumeRequest where
  "sample_request =
     \<lparr>Capacity = 2048, Req_Driver = ''vsphere'', Req_Metadata = Map.empty,
      Req_Name = ''vol1'', Req_Store = ''default''\<rparr>"


definition sample_write :: WriteImageParams where
  "sample_write =
     \<lparr>WI_StoreName = ''images'', ParentID = ''layer1'', ImageID = ''layer2'',
      Metadatakey = Some ''tag'', Metadataval = Some ''latest'', Sum = ''abc'',
      ImageFile = ''data''\<rparr>"

definition WriteImage_fails :: "go_error \<Rightarrow> (string, string, string, string, string) env" where
  "WriteImage_fails err =
     sample_env\<lparr>ic_WriteImage := \<lambda>ic parent ident meta checksum file. Inl err\<rparr>"

definition huge_request :: models_VolumeRequest where
  "huge_request = sample_request\<lparr>Capacity := 18014398509481984\<rparr>"

definition enoent_PathError :: go_error where
  "enoent_PathError =
     os_PathError ''stat'' ''/volumes/v'' (syscall_Errno ENOENT ''no such file or directory'')"

definition sample_join :: VolumeJoinParams where
  "sample_join =
     \<lparr>VJ_Name = ''v'', JoinArgs_Handle = ''h1'', JoinArgs_MountPath = ''/mnt'',
      JoinArgs_Flags = Map.empty\<rparr>"

definition VolumeGet_finds :: "string \<Rightarrow> (string, string, string, string, string) env" where
  "VolumeGet_finds scheme =
     sample_env\<lparr>VolumeGet := \<lambda>vc name. (Some (sample_volume name scheme), None)\<rparr>"

definition sample_locations :: "(string \<times> URL) list" where
  "sample_locations = [(''v1'', sample_url ''nfs'' ''filer''), (''v2'', sample_url ''ds'' ''datastore1'')]"

section \<open>Properties\<close>

subsection \<open>Error classes are disjoint\<close>


lemma VolumeStoreNotFound_not_IsExist: "is_VolumeStoreNotFoundError err \<Longrightarrow> \<not> os_IsExist err"
  by (cases err) (auto simp: os_IsExist_def)

lemmas http_codes = http_StatusCreated_def http_StatusNotFound_def http_StatusConflict_def
  http_StatusLocked_def http_StatusInternalServerError_def

subsection \<open>CreateImageStore\<close>

text \<open>
  C7. CreateImageStore: when the image cache reports that the store already exists
  (\<^verbatim>\<open>os.IsExist\<close> of its error), the handler answers with the conflict responder, code 409
  and the fixed "already exists" message; on success it answers with the created
  responder, code 201, carrying the text of the URL the cache returned; any other error
  gives the default responder with status 500 and the error's text.
\<close>

theorem CreateImageStore_statuses:
  "(ic_CreateImageStore env (imageCache h) (Body_Name params) = Inl err \<and> os_IsExist err \<longrightarrow>
      snd (CreateImageStore env h params) =
        CreateImageStoreConflict
          \<lparr>Code = 409, Message = ''An image store with that name already exists''\<rparr>) \<and>
   (ic_CreateImageStore env (imageCache h) (Body_Name params) = Inl err \<and> \<not> os_IsExist err \<longrightarrow>
      snd (CreateImageStore env h params) =
        CreateImageStoreDefault 500 \<lparr>Code = 500, Message = Error err\<rparr>) \<and>
   (ic_CreateImageStore env (imageCache h) (Body_Name params) = Inr url \<longrightarrow>
      snd (CreateImageStore env h params) =
        CreateImageStoreCreated \<lparr>StoreURL_Code = 201, StoreURL_URL = URL_String url\<rparr>)"
  by (simp add: CreateImageStore_def http_StatusConflict_def http_StatusCreated_def
      http_StatusInternalServerError_def)

theorem CreateImageStore_statuses_witness:
  "snd (CreateImageStore (sample_env\<lparr>ic_CreateImageStore := \<lambda>ic name. Inl os_ErrExist\<rparr>) sample_h
          \<lparr>Body_Name = ''images''\<rparr>) =
     CreateImageStoreConflict
       \<lparr>Code = 409, Message = ''An image store with that name already exists''\<rparr> \<and>
   snd (CreateImageStore (sample_env\<lparr>ic_CreateImageStore := \<lambda>ic name. Inl (other_error ''io'')\<rparr>)
          sample_h \<lparr>Body_Name = ''images''\<rparr>) =
     CreateImageStoreDefault 500 \<lparr>Code = 500, Message = ''io''\<rparr> \<and>
   snd (CreateImageStore sample_env sample_h \<lparr>Body_Name = ''images''\<rparr>) =
     CreateImageStoreCreated \<lparr>StoreURL_Code = 201, StoreURL_URL = ''ds://images/store''\<rparr>"
  using CreateImageStore_statuses
          [of "sample_env\<lparr>ic_CreateImageStore := \<lambda>ic name. Inl os_ErrExist\<rparr>" sample_h
              "\<lparr>Body_Name = ''images''\<rparr>" os_ErrExist]
        CreateImageStore_statuses
          [of "sample_env\<lparr>ic_CreateImageStore := \<lambda>ic name. Inl (other_error ''io'')\<rparr>" sample_h
              "\<lparr>Body_Name = ''images''\<rparr>" "other_error ''io''"]
        CreateImageStore_statuses
          [of sample_env sample_h "\<lparr>Body_Name = ''images''\<rparr>" _ "sample_url ''ds'' ''images''"]
  by (simp add: sample_env_def sample_h_def sample_url_def os_IsExist_def)

subsection \<open>CreateVolume\<close>

text \<open>
  C6. CreateVolume, once the store name has resolved and VolumeCreate has been called:
  an already-exists error (\<^verbatim>\<open>os.IsExist\<close>) gives the conflict responder with code 409, an
  error of type VolumeStoreNotFoundError gives the not-found responder with code 404, any
  other error gives the internal-server-error responder with code 500, and success gives
  the created responder whose payload carries the volume's ID as name and its label.
\<close>

theorem CreateVolume_statuses:
  assumes "fst (CreateVolume env h params) = [Call_VolumeCreate name storeURL cap byteMap]"
  shows
    "(VolumeCreate env (volumeCache h) name storeURL cap byteMap = Inl err \<and> os_IsExist err \<longrightarrow>
        snd (CreateVolume env h params) =
          CreateVolumeConflict \<lparr>Code = 409, Message = Error err\<rparr>) \<and>
     (VolumeCreate env (volumeCache h) name storeURL cap byteMap = Inl err \<and>
        is_VolumeStoreNotFoundError err \<longrightarrow>
        snd (CreateVolume env h params) =
          CreateVolumeNotFound \<lparr>Code = 404, Message = Error err\<rparr>) \<and>
     (VolumeCreate env (volumeCache h) name storeURL cap byteMap = Inl err \<and>
        \<not> os_IsExist err \<and> \<not> is_VolumeStoreNotFoundError err \<longrightarrow>
        snd (CreateVolume env h params) =
          CreateVolumeInternalServerError \<lparr>Code = 500, Message = Error err\<rparr>) \<and>
     (VolumeCreate env (volumeCache h) name storeURL cap byteMap = Inr volume \<longrightarrow>
        snd (CreateVolume env h params) =
          CreateVolumeCreated
            \<lparr>Resp_Driver = Req_Driver (VolumeRequest params),
             Resp_Name = Volume_ID volume,
             Resp_Label = Volume_Label volume,
             Resp_Store = Req_Store (VolumeRequest params),
             Resp_Metadata = Req_Metadata (VolumeRequest params)\<rparr>)"
proof (cases "util_VolumeStoreNameToURL env (Req_Store (VolumeRequest params))")
  case (Inl e)
  with assms show ?thesis
    by (simp add: CreateVolume_def)
next
  case (Inr u)
  with assms show ?thesis
    by (auto simp: CreateVolume_def Let_def http_codes volumeToCreateResponse_def
        dest: VolumeStoreNotFound_not_IsExist)
qed

lemma sample_CreateVolume_call:
  "fst (CreateVolume (sample_env\<lparr>VolumeCreate := f\<rparr>) sample_h \<lparr>VolumeRequest = sample_request\<rparr>) =
     [Call_VolumeCreate ''vol1'' (sample_url ''ds'' ''default'') 2097152 Map.empty]"
  by (simp add: CreateVolume_def sample_env_def sample_request_def Let_def)

theorem CreateVolume_statuses_witness:
  "snd (CreateVolume (sample_env\<lparr>VolumeCreate := \<lambda>vc name u cap meta. Inl os_ErrExist\<rparr>)
          sample_h \<lparr>VolumeRequest = sample_request\<rparr>) =
     CreateVolumeConflict \<lparr>Code = 409, Message = ''file already exists''\<rparr> \<and>
   snd (CreateVolume
          (sample_env\<lparr>VolumeCreate :=
             \<lambda>vc name u cap meta. Inl (spl_VolumeStoreNotFoundError ''no such store'')\<rparr>)
          sample_h \<lparr>VolumeRequest = sample_request\<rparr>) =
     CreateVolumeNotFound \<lparr>Code = 404, Message = ''no such store''\<rparr> \<and>
   snd (CreateVolume (sample_env\<lparr>VolumeCreate := \<lambda>vc name u cap meta. Inl (other_error ''io'')\<rparr>)
          sample_h \<lparr>VolumeRequest = sample_request\<rparr>) =
     CreateVolumeInternalServerError \<lparr>Code = 500, Message = ''io''\<rparr> \<and>
   snd (CreateVolume sample_env sample_h \<lparr>VolumeRequest = sample_request\<rparr>) =
     CreateVolumeCreated
       \<lparr>Resp_Driver = ''vsphere'', Resp_Name = ''vol1'', Resp_Label = ''vol1'',
        Resp_Store = ''default'', Resp_Metadata = Map.empty\<rparr>"
  using CreateVolume_statuses
          [OF sample_CreateVolume_call [of "\<lambda>vc name u cap meta. Inl os_ErrExist"],
           of os_ErrExist]
        CreateVolume_statuses
          [OF sample_CreateVolume_call
                [of "\<lambda>vc name u cap meta. Inl (spl_VolumeStoreNotFoundError ''no such store'')"],
           of "spl_VolumeStoreNotFoundError ''no such store''"]
        CreateVolume_statuses
          [OF sample_CreateVolume_call [of "\<lambda>vc name u cap meta. Inl (other_error ''io'')"],
           of "other_error ''io''"]
        CreateVolume_statuses
          [OF sample_CreateVolume_call [of "VolumeCreate sample_env"],
           of _ "sample_volume ''vol1'' ''ds''"]
  by (simp add: sample_env_def sample_request_def sample_volume_def os_IsExist_def)

subsection \<open>DeleteImage\<close>




subsection \<open>WriteImage\<close>

text \<open>
  C10. WriteImage, when it calls the image cache: the metadata argument is the map with
  the one entry key \<open>\<mapsto>\<close> value when both \<^verbatim>\<open>Metadatakey\<close> and \<^verbatim>\<open>Metadataval\<close> are
  present, and nil when either is absent; a map that is passed has exactly one key.
\<close>

theorem WriteImage_metadata:
  assumes "fst (WriteImage env h params) = [Call_WriteImage parent ident meta checksum file]"
  shows
    "(\<forall>key val. Metadatakey params = Some key \<and> Metadataval params = Some val \<longrightarrow>
        meta = Some [key \<mapsto> go_bytes val]) \<and>
     (Metadatakey params = None \<or> Metadataval params = None \<longrightarrow> meta = None) \<and>
     (\<forall>m. meta = Some m \<longrightarrow> (\<exists>key. dom m = {key}))"
  using assms
  by (auto simp: WriteImage_def Let_def split: sum.splits option.splits)

lemma sample_WriteImage_call:
  "fst (WriteImage (sample_env\<lparr>ic_WriteImage := f\<rparr>) sample_h params) =
     [Call_WriteImage
        \<lparr>Image_ID = ParentID params, SelfLink = None, ParentLink = None,
         Image_Store = sample_url ''ds'' (WI_StoreName params), Image_Metadata = None\<rparr>
        (ImageID params)
        (case (Metadatakey params, Metadataval params) of
           (Some key, Some val) \<Rightarrow> Some [key \<mapsto> go_bytes val]
         | _ \<Rightarrow> None)
        (Sum params) (ImageFile params)]"
  by (simp add: WriteImage_def sample_env_def Let_def)

theorem WriteImage_metadata_witness:
  "fst (WriteImage sample_env sample_h sample_write) =
     [Call_WriteImage
        \<lparr>Image_ID = ''layer1'', SelfLink = None, ParentLink = None,
         Image_Store = sample_url ''ds'' ''images'', Image_Metadata = None\<rparr>
        ''layer2'' (Some [''tag'' \<mapsto> ''latest'']) ''abc'' ''data''] \<and>
   fst (WriteImage sample_env sample_h (sample_write\<lparr>Metadataval := None\<rparr>)) =
     [Call_WriteImage
        \<lparr>Image_ID = ''layer1'', SelfLink = None, ParentLink = None,
         Image_Store = sample_url ''ds'' ''images'', Image_Metadata = None\<rparr>
        ''layer2'' None ''abc'' ''data'']"
  using WriteImage_metadata [OF sample_WriteImage_call [of "ic_WriteImage sample_env" sample_write]]
        WriteImage_metadata
          [OF sample_WriteImage_call
                [of "ic_WriteImage sample_env" "sample_write\<lparr>Metadataval := None\<rparr>"]]
        sample_WriteImage_call [of "ic_WriteImage sample_env" sample_write]
        sample_WriteImage_call
          [of "ic_WriteImage sample_env" "sample_write\<lparr>Metadataval := None\<rparr>"]
  by (simp add: sample_write_def go_bytes_def)

text \<open>
  C3, as the code has it. Whatever error the image cache's WriteImage returns, the
  handler answers with the default responder, status 500 and code 500; only the message,
  the text of the error, depends on the error.
\<close>

theorem WriteImage_failure_status:
  assumes "fst (WriteImage env h params) = [Call_WriteImage parent ident meta checksum file]"
    and "ic_WriteImage env (imageCache h) parent ident meta checksum file = Inl err"
  shows "snd (WriteImage env h params) =
           WriteImageDefault 500 \<lparr>Code = 500, Message = Error err\<rparr>"
  using assms
  by (auto simp: WriteImage_def Let_def http_codes split: sum.splits)

theorem WriteImage_failure_status_witness:
  "snd (WriteImage (WriteImage_fails os_ErrExist) sample_h sample_write) =
     WriteImageDefault 500 \<lparr>Code = 500, Message = ''file already exists''\<rparr>"
  using WriteImage_failure_status
          [OF sample_WriteImage_call
                [of "\<lambda>ic parent ident meta checksum file. Inl os_ErrExist" sample_write],
           of os_ErrExist]
  by (simp add: WriteImage_fails_def sample_env_def)

text \<open>
  C3, as the claim states it, fails: an already-exists error (the sentinel
  \<^verbatim>\<open>os.ErrExist\<close>, which \<^verbatim>\<open>os.IsExist\<close> accepts) and a backend failure of another kind with the
  same text give the same calls and the same response, status 500.
\<close>

theorem WriteImage_kinds_counterexample:
  "os_IsExist os_ErrExist \<and>
   \<not> os_IsExist (other_error ''file already exists'') \<and>
   WriteImage (WriteImage_fails os_ErrExist) sample_h sample_write =
     WriteImage (WriteImage_fails (other_error ''file already exists'')) sample_h sample_write \<and>
   snd (WriteImage (WriteImage_fails os_ErrExist) sample_h sample_write) =
     WriteImageDefault 500 \<lparr>Code = 500, Message = ''file already exists''\<rparr>"
  by (simp add: WriteImage_def WriteImage_fails_def sample_env_def Let_def os_IsExist_def
      http_codes)

subsection \<open>The capacity of a new volume\<close>

lemma uint_of_nonneg_sint:
  fixes c :: "64 word"
  assumes "0 \<le> sint c"
  shows "uint c = sint c"
proof -
  from assms have nb: "\<not> bit (uint c) 63"
    by (simp add: sint_uint)
  then have s: "sint c = take_bit 63 (uint c)"
    by (simp add: sint_uint signed_take_bit_eq_if_positive)
  have "uint c = take_bit (Suc 63) (uint c)"
    by (simp add: take_bit_int_eq_self uint_lt2p [of c, simplified])
  also have "\<dots> = take_bit 63 (uint c)"
    using nb by (simp only: take_bit_Suc_from_most) simp
  finally show ?thesis using s by simp
qed

text \<open>
  C9, as the code has it. The capacity passed to VolumeCreate is always a product by
  1024 in \<^verbatim>\<open>uint64\<close>: for a negative request it is 1024 * 1024; for a request \<open>c \<ge> 0\<close> it
  is \<open>c * 1024\<close> modulo \<open>2 ^ 64\<close>, which is \<open>c * 1024\<close> itself when \<open>c < 2 ^ 54\<close>.
\<close>

theorem CreateVolume_capacity:
  assumes "fst (CreateVolume env h params) = [Call_VolumeCreate name storeURL cap byteMap]"
  shows
    "(sint (Capacity (VolumeRequest params)) < 0 \<longrightarrow> uint cap = 1024 * 1024) \<and>
     (0 \<le> sint (Capacity (VolumeRequest params)) \<longrightarrow>
        uint cap = (sint (Capacity (VolumeRequest params)) * 1024) mod 2 ^ 64) \<and>
     (0 \<le> sint (Capacity (VolumeRequest params)) \<and>
      sint (Capacity (VolumeRequest params)) < 2 ^ 54 \<longrightarrow>
        uint cap = sint (Capacity (VolumeRequest params)) * 1024)"
proof -
  let ?c = "Capacity (VolumeRequest params)"
  from assms have cap: "cap = (if sint ?c < 0 then 1024 else ?c) * 1024"
    by (auto simp: CreateVolume_def Let_def split: sum.splits)
  have neg: "sint ?c < 0 \<Longrightarrow> uint cap = 1024 * 1024"
    by (simp add: cap)
  have pos: "uint cap = (sint ?c * 1024) mod 2 ^ 64" if "0 \<le> sint ?c"
  proof -
    from that have "cap = ?c * 1024" by (simp add: cap)
    then have "uint cap = (uint ?c * 1024) mod 2 ^ 64"
      by (simp add: uint_word_ariths)
    with that show ?thesis by (simp add: uint_of_nonneg_sint)
  qed
  have small: "uint cap = sint ?c * 1024" if "0 \<le> sint ?c" "sint ?c < 2 ^ 54"
  proof -
    from that have "sint ?c * 1024 < 2 ^ 64" by simp
    with that pos show ?thesis by simp
  qed
  from neg pos small show ?thesis by blast
qed

theorem CreateVolume_capacity_witness:
  "fst (CreateVolume sample_env sample_h \<lparr>VolumeRequest = sample_request\<rparr>) =
     [Call_VolumeCreate ''vol1'' (sample_url ''ds'' ''default'') 2097152 Map.empty] \<and>
   sint (Capacity sample_request) = 2048 \<and>
   uint (2097152 :: 64 word) = 2048 * 1024"
  using CreateVolume_capacity [OF sample_CreateVolume_call [of "VolumeCreate sample_env"]]
        sample_CreateVolume_call [of "VolumeCreate sample_env"]
  by (simp add: sample_request_def)

text \<open>
  C9, as the claim states it, fails: for the non-negative request \<open>2 ^ 54\<close> the capacity
  passed to VolumeCreate is 0, not \<open>2 ^ 54 * 1024\<close>.
\<close>

theorem CreateVolume_capacity_counterexample:
  "sint (Capacity huge_request) = 18014398509481984 \<and>
   fst (CreateVolume sample_env sample_h \<lparr>VolumeRequest = huge_request\<rparr>) =
     [Call_VolumeCreate ''vol1'' (sample_url ''ds'' ''default'') 0 Map.empty] \<and>
   uint (0 :: 64 word) \<noteq> 18014398509481984 * 1024"
  by (simp add: CreateVolume_def huge_request_def sample_request_def sample_env_def Let_def)

subsection \<open>GetVolume\<close>

text \<open>
  C8. GetVolume answers not found exactly when the error of VolumeGet is the sentinel
  \<^verbatim>\<open>os.ErrNotExist\<close>. For every other error (and for no error) it goes on to
  \<open>fillVolumeModel\<close> with the pointer VolumeGet returned, and its answer is decided
  there: a nil pointer is dereferenced (a panic), a failing store-name lookup gives
  status 500, and otherwise the volume is reported with OK.
\<close>

theorem GetVolume_sentinel_only:
  assumes "VolumeGet env (volumeCache h) (GV_Name params) = (data, err)"
  shows
    "(err = Some os_ErrNotExist \<longrightarrow>
        snd (GetVolume env h params) =
          Return (GetVolumeNotFound \<lparr>Code = 404, Message = ''file does not exist''\<rparr>)) \<and>
     (err \<noteq> Some os_ErrNotExist \<longrightarrow>
        (\<forall>m. snd (GetVolume env h params) \<noteq> Return (GetVolumeNotFound m)) \<and>
        snd (GetVolume env h params) =
          (case fillVolumeModel env data of
             Panic p \<Rightarrow> Panic p
           | Return (Inl e) \<Rightarrow>
               Return (ListVolumesInternalServerError \<lparr>Code = 500, Message = Error e\<rparr>)
           | Return (Inr response) \<Rightarrow> Return (GetVolumeOK response))) \<and>
     (err \<noteq> Some os_ErrNotExist \<and> data = None \<longrightarrow>
        snd (GetVolume env h params) = Panic NilDereference)"
  using assms
  by (auto simp: GetVolume_def fillVolumeModel_def http_codes
      split: outcome.splits sum.splits option.splits)

theorem GetVolume_sentinel_only_witness:
  "snd (GetVolume (sample_env\<lparr>VolumeGet := \<lambda>vc name. (None, Some os_ErrNotExist)\<rparr>) sample_h
          \<lparr>GV_Name = ''v''\<rparr>) =
     Return (GetVolumeNotFound \<lparr>Code = 404, Message = ''file does not exist''\<rparr>) \<and>
   os_IsNotExist enoent_PathError \<and>
   snd (GetVolume (sample_env\<lparr>VolumeGet := \<lambda>vc name. (None, Some enoent_PathError)\<rparr>) sample_h
          \<lparr>GV_Name = ''v''\<rparr>) =
     Panic NilDereference"
  using GetVolume_sentinel_only
          [of "sample_env\<lparr>VolumeGet := \<lambda>vc name. (None, Some os_ErrNotExist)\<rparr>" sample_h
              "\<lparr>GV_Name = ''v''\<rparr>" None "Some os_ErrNotExist"]
        GetVolume_sentinel_only
          [of "sample_env\<lparr>VolumeGet := \<lambda>vc name. (None, Some enoent_PathError)\<rparr>" sample_h
              "\<lparr>GV_Name = ''v''\<rparr>" None "Some enoent_PathError"]
  by (simp add: enoent_PathError_def os_IsNotExist_def ENOENT_def fillVolumeModel_def)

subsection \<open>VolumeJoin\<close>

text \<open>
  C1. VolumeJoin, for a volume that VolumeGet returned without error, dispatches on the
  scheme of the volume's disk path: for "nfs" it calls \<^verbatim>\<open>nfs.VolumeJoin\<close> and nothing else,
  for "ds" it calls \<^verbatim>\<open>vsphere.VolumeJoin\<close> and nothing else, and in both cases answers with
  what that call returned (status 500 for its error, OK with the handle's text
  otherwise); for any other scheme it calls neither and answers with status 500 and the
  "unknown scheme" message. It does not panic in any of the three cases.
\<close>

theorem VolumeJoin_dispatch:
  assumes "VolumeGet env (volumeCache h) (VJ_Name params) = (Some v, None)"
  shows
    "(Scheme (DiskPath (Device v)) = ''nfs'' \<longrightarrow>
        VolumeJoin env h params =
          ([Call_GetHandle (JoinArgs_Handle params), Call_VolumeGet (VJ_Name params),
            Call_nfs_VolumeJoin (epl_GetHandle env (JoinArgs_Handle params)) v
              (JoinArgs_MountPath params) (JoinArgs_Flags params)],
           case nfs_VolumeJoin env (epl_GetHandle env (JoinArgs_Handle params)) v
                  (JoinArgs_MountPath params) (JoinArgs_Flags params) of
             Inl err \<Rightarrow>
               Return (VolumeJoinInternalServerError \<lparr>Code = 500, Message = Error err\<rparr>)
           | Inr handle \<Rightarrow> Return (VolumeJoinOK (Handle_String handle)))) \<and>
     (Scheme (DiskPath (Device v)) = ''ds'' \<longrightarrow>
        VolumeJoin env h params =
          ([Call_GetHandle (JoinArgs_Handle params), Call_VolumeGet (VJ_Name params),
            Call_vsphere_VolumeJoin (epl_GetHandle env (JoinArgs_Handle params)) v
              (JoinArgs_MountPath params) (JoinArgs_Flags params)],
           case vsphere_VolumeJoin env (epl_GetHandle env (JoinArgs_Handle params)) v
                  (JoinArgs_MountPath params) (JoinArgs_Flags params) of
             Inl err \<Rightarrow>
               Return (VolumeJoinInternalServerError \<lparr>Code = 500, Message = Error err\<rparr>)
           | Inr handle \<Rightarrow> Return (VolumeJoinOK (Handle_String handle)))) \<and>
     (Scheme (DiskPath (Device v)) \<noteq> ''nfs'' \<and> Scheme (DiskPath (Device v)) \<noteq> ''ds'' \<longrightarrow>
        VolumeJoin env h params =
          ([Call_GetHandle (JoinArgs_Handle params), Call_VolumeGet (VJ_Name params)],
           Return (VolumeJoinInternalServerError
             \<lparr>Code = 500,
              Message = ''unknown scheme ('' @ Scheme (DiskPath (Device v)) @
                        '') for Volume ('' @ fmt_Volume env v @ '')''\<rparr>))) \<and>
     (\<forall>p. snd (VolumeJoin env h params) \<noteq> Panic p)"
  using assms
  by (auto simp: VolumeJoin_def Let_def nfsScheme_def dsScheme_def http_codes
      split: sum.splits)

theorem VolumeJoin_dispatch_witness:
  "VolumeJoin (VolumeGet_finds ''nfs'') sample_h sample_join =
     ([Call_GetHandle ''h1'', Call_VolumeGet ''v'',
       Call_nfs_VolumeJoin (Some \<lparr>Handle_String = ''h1''\<rparr>) (sample_volume ''v'' ''nfs'') ''/mnt''
         Map.empty],
      Return (VolumeJoinOK ''nfs joined'')) \<and>
   VolumeJoin (VolumeGet_finds ''ds'') sample_h sample_join =
     ([Call_GetHandle ''h1'', Call_VolumeGet ''v'',
       Call_vsphere_VolumeJoin (Some \<lparr>Handle_String = ''h1''\<rparr>) (sample_volume ''v'' ''ds'')
         ''/mnt'' Map.empty],
      Return (VolumeJoinOK ''vsphere joined'')) \<and>
   VolumeJoin (VolumeGet_finds ''iscsi'') sample_h sample_join =
     ([Call_GetHandle ''h1'', Call_VolumeGet ''v''],
      Return (VolumeJoinInternalServerError
        \<lparr>Code = 500, Message = ''unknown scheme (iscsi) for Volume (v)''\<rparr>))"
  using VolumeJoin_dispatch
          [of "VolumeGet_finds ''nfs''" sample_h sample_join "sample_volume ''v'' ''nfs''"]
        VolumeJoin_dispatch
          [of "VolumeGet_finds ''ds''" sample_h sample_join "sample_volume ''v'' ''ds''"]
        VolumeJoin_dispatch
          [of "VolumeGet_finds ''iscsi''" sample_h sample_join "sample_volume ''v'' ''iscsi''"]
  by (simp add: VolumeGet_finds_def sample_env_def sample_join_def sample_volume_def
      sample_url_def)

subsection \<open>Configuration of the volume stores\<close>

lemma volumeStoreOf_nfs_call:
  assumes "Call_nfs_NewVolumeStore name mnt \<in> set (fst (volumeStoreOf env n u))"
  shows "name = n \<and> Scheme u = ''nfs'' \<and> Target mnt = u"
  using assms
  by (auto simp: volumeStoreOf_def nfsScheme_def dsScheme_def nfs_NewMount_def Let_def
      split: if_splits sum.splits option.splits)

lemma volumeStoreOf_vsphere_call:
  assumes "Call_vsphere_NewVolumeStore name d \<in> set (fst (volumeStoreOf env n u))"
  shows "name = n \<and> Scheme u = ''ds'' \<and> datastore_NewHelperFromURL env u = Inr d"
  using assms
  by (auto simp: volumeStoreOf_def nfsScheme_def dsScheme_def Let_def
      split: if_splits sum.splits option.splits)

lemma volumeStoreOf_no_NewImageStore:
  "Call_vsphere_NewImageStore x \<notin> set (fst (volumeStoreOf env n u))"
  by (auto simp: volumeStoreOf_def Let_def split: if_splits sum.splits option.splits)

lemma volumeStoreOf_built:
  assumes "volumeStoreOf env n u = (cs, Inr vs)"
  shows "(Scheme u = ''nfs'' \<and>
            (\<exists>mnt. Target mnt = u \<and> cs = [Call_nfs_NewVolumeStore n mnt] \<and>
                   nfs_NewVolumeStore env n mnt = Inr vs)) \<or>
         (Scheme u = ''ds'' \<and>
            (\<exists>d. datastore_NewHelperFromURL env u = Inr d \<and>
                  cs = [Call_datastore_NewHelperFromURL u, Call_vsphere_NewVolumeStore n d] \<and>
                  vsphere_NewVolumeStore env n d = Inr vs))"
  using assms
  by (auto simp: volumeStoreOf_def nfsScheme_def dsScheme_def nfs_NewMount_def Let_def
      split: if_splits sum.splits option.splits)

lemma volumeStoreOf_failed_nfs:
  assumes "volumeStoreOf env n u = (cs, Inl e)"
    and "Call_nfs_NewVolumeStore name mnt \<in> set cs"
  shows "nfs_NewVolumeStore env name mnt = Inl e"
  using assms
  by (auto simp: volumeStoreOf_def Let_def split: if_splits sum.splits option.splits)

lemma volumeStoreOf_failed_vsphere:
  assumes "volumeStoreOf env n u = (cs, Inl e)"
    and "Call_vsphere_NewVolumeStore name d \<in> set cs"
  shows "\<exists>e'. vsphere_NewVolumeStore env name d = Inl e'"
  using assms
  by (auto simp: volumeStoreOf_def Let_def split: if_splits sum.splits option.splits)

lemma volumeStoreOf_unknown_scheme:
  assumes "Scheme u \<noteq> ''nfs''" and "Scheme u \<noteq> ''ds''"
  shows "volumeStoreOf env n u = ([], Inl (other_error (''unknown scheme for '' @ URL_String u)))"
  using assms by (simp add: volumeStoreOf_def nfsScheme_def dsScheme_def fmt_Errorf_def)

text \<open>The three ways one round of the loop ends.\<close>

lemma configureLoop_Cons_cases:
  obtains
    (build_failed) cs e where "volumeStoreOf env n u = (cs, Inl e)"
      and "configureLoop env vc ((n, u) # rest) = (cs, Some e)"
  | (add_failed) cs vs e where "volumeStoreOf env n u = (cs, Inr vs)"
      and "AddStore env vc n vs = Some e"
      and "configureLoop env vc ((n, u) # rest) =
             (cs @ [Call_AddStore n vs], Some (fmt_Errorf ''volume addition error '' (Error e)))"
  | (added) cs vs where "volumeStoreOf env n u = (cs, Inr vs)"
      and "AddStore env vc n vs = None"
      and "configureLoop env vc ((n, u) # rest) =
             (cs @ [Call_AddStore n vs] @ fst (configureLoop env vc rest),
              snd (configureLoop env vc rest))"
proof (cases "volumeStoreOf env n u")
  case (Pair cs r)
  show thesis
  proof (cases r)
    case (Inl e)
    with Pair show thesis by (intro build_failed [of cs e]) simp_all
  next
    case (Inr vs)
    show thesis
    proof (cases "AddStore env vc n vs")
      case None
      with Pair Inr show thesis
        by (intro added [of cs vs]) (simp_all split: prod.splits)
    next
      case (Some e)
      with Pair Inr show thesis by (intro add_failed [of cs vs e]) simp_all
    qed
  qed
qed

lemma configureLoop_nfs_call:
  "Call_nfs_NewVolumeStore name mnt \<in> set (fst (configureLoop env vc locs)) \<Longrightarrow>
     \<exists>u. (name, u) \<in> set locs \<and> Scheme u = ''nfs'' \<and> Target mnt = u"
proof (induction locs)
  case Nil
  then show ?case by simp
next
  case (Cons loc rest)
  obtain n u where loc: "loc = (n, u)" by (cases loc)
  have here: "Call_nfs_NewVolumeStore name mnt \<in> set (fst (volumeStoreOf env n u)) \<Longrightarrow> ?case"
    using volumeStoreOf_nfs_call [of name mnt env n u] by (auto simp: loc)
  show ?case
  proof (cases rule: configureLoop_Cons_cases [of env n u vc rest])
    case (build_failed cs e)
    with Cons.prems here show ?thesis by (simp add: loc)
  next
    case (add_failed cs vs e)
    with Cons.prems here show ?thesis by (simp add: loc)
  next
    case (added cs vs)
    with Cons.prems have "Call_nfs_NewVolumeStore name mnt \<in> set (fst (volumeStoreOf env n u)) \<or>
        Call_nfs_NewVolumeStore name mnt \<in> set (fst (configureLoop env vc rest))"
      by (auto simp: loc)
    with here Cons.IH show ?thesis by auto
  qed
qed

lemma configureLoop_vsphere_call:
  "Call_vsphere_NewVolumeStore name d \<in> set (fst (configureLoop env vc locs)) \<Longrightarrow>
     \<exists>u. (name, u) \<in> set locs \<and> Scheme u = ''ds'' \<and> datastore_NewHelperFromURL env u = Inr d"
proof (induction locs)
  case Nil
  then show ?case by simp
next
  case (Cons loc rest)
  obtain n u where loc: "loc = (n, u)" by (cases loc)
  have here: "Call_vsphere_NewVolumeStore name d \<in> set (fst (volumeStoreOf env n u)) \<Longrightarrow> ?case"
    using volumeStoreOf_vsphere_call [of name d env n u] by (auto simp: loc)
  show ?case
  proof (cases rule: configureLoop_Cons_cases [of env n u vc rest])
    case (build_failed cs e)
    with Cons.prems here show ?thesis by (simp add: loc)
  next
    case (add_failed cs vs e)
    with Cons.prems here show ?thesis by (simp add: loc)
  next
    case (added cs vs)
    with Cons.prems have "Call_vsphere_NewVolumeStore name d \<in> set (fst (volumeStoreOf env n u)) \<or>
        Call_vsphere_NewVolumeStore name d \<in> set (fst (configureLoop env vc rest))"
      by (auto simp: loc)
    with here Cons.IH show ?thesis by auto
  qed
qed

lemma configureLoop_no_NewImageStore:
  "Call_vsphere_NewImageStore x \<notin> set (fst (configureLoop env vc locs))"
proof (induction locs)
  case Nil
  then show ?case by simp
next
  case (Cons loc rest)
  obtain n u where loc: "loc = (n, u)" by (cases loc)
  show ?case
    using Cons.IH volumeStoreOf_no_NewImageStore [of x env n u]
    by (cases rule: configureLoop_Cons_cases [of env n u vc rest]) (auto simp: loc)
qed

lemma configureLoop_nfs_registered:
  "Call_nfs_NewVolumeStore name mnt \<in> set (fst (configureLoop env vc locs)) \<Longrightarrow>
   nfs_NewVolumeStore env name mnt = Inr vs \<Longrightarrow>
     Call_AddStore name vs \<in> set (fst (configureLoop env vc locs))"
proof (induction locs)
  case Nil
  then show ?case by simp
next
  case (Cons loc rest)
  obtain n u where loc: "loc = (n, u)" by (cases loc)
  show ?case
  proof (cases rule: configureLoop_Cons_cases [of env n u vc rest])
    case (build_failed cs e)
    with Cons.prems volumeStoreOf_failed_nfs [of env n u cs e name mnt]
    show ?thesis by (simp add: loc)
  next
    case (add_failed cs vs' e)
    with Cons.prems volumeStoreOf_built [of env n u cs vs']
    show ?thesis by (auto simp: loc)
  next
    case (added cs vs')
    with Cons.prems Cons.IH volumeStoreOf_built [of env n u cs vs']
    show ?thesis by (auto simp: loc)
  qed
qed

lemma configureLoop_vsphere_registered:
  "Call_vsphere_NewVolumeStore name d \<in> set (fst (configureLoop env vc locs)) \<Longrightarrow>
   vsphere_NewVolumeStore env name d = Inr vs \<Longrightarrow>
     Call_AddStore name vs \<in> set (fst (configureLoop env vc locs))"
proof (induction locs)
  case Nil
  then show ?case by simp
next
  case (Cons loc rest)
  obtain n u where loc: "loc = (n, u)" by (cases loc)
  show ?case
  proof (cases rule: configureLoop_Cons_cases [of env n u vc rest])
    case (build_failed cs e)
    with Cons.prems volumeStoreOf_failed_vsphere [of env n u cs e name d]
    show ?thesis by (auto simp: loc)
  next
    case (add_failed cs vs' e)
    with Cons.prems volumeStoreOf_built [of env n u cs vs']
    show ?thesis by (auto simp: loc)
  next
    case (added cs vs')
    with Cons.prems Cons.IH volumeStoreOf_built [of env n u cs vs']
    show ?thesis by (auto simp: loc)
  qed
qed

lemma configureLoop_unknown_scheme:
  "(n, u) \<in> set locs \<Longrightarrow> Scheme u \<noteq> ''nfs'' \<Longrightarrow> Scheme u \<noteq> ''ds'' \<Longrightarrow>
     snd (configureLoop env vc locs) \<noteq> None"
proof (induction locs)
  case Nil
  then show ?case by simp
next
  case (Cons loc rest)
  obtain n' u' where loc: "loc = (n', u')" by (cases loc)
  show ?case
  proof (cases rule: configureLoop_Cons_cases [of env n' u' vc rest])
    case (build_failed cs e)
    then show ?thesis by (simp add: loc)
  next
    case (add_failed cs vs e)
    then show ?thesis by (simp add: loc)
  next
    case (added cs vs)
    with Cons.prems volumeStoreOf_unknown_scheme [of u env n] have "(n, u) \<in> set rest"
      by (auto simp: loc)
    with Cons.IH Cons.prems added show ?thesis by (simp add: loc)
  qed
qed

lemma configureLoop_success:
  "snd (configureLoop env vc locs) = None \<Longrightarrow> (n, u) \<in> set locs \<Longrightarrow>
     (Scheme u = ''nfs'' \<and>
        (\<exists>mnt vs. Target mnt = u \<and>
           Call_nfs_NewVolumeStore n mnt \<in> set (fst (configureLoop env vc locs)) \<and>
           nfs_NewVolumeStore env n mnt = Inr vs \<and>
           Call_AddStore n vs \<in> set (fst (configureLoop env vc locs)))) \<or>
     (Scheme u = ''ds'' \<and>
        (\<exists>d vs. datastore_NewHelperFromURL env u = Inr d \<and>
           Call_vsphere_NewVolumeStore n d \<in> set (fst (configureLoop env vc locs)) \<and>
           vsphere_NewVolumeStore env n d = Inr vs \<and>
           Call_AddStore n vs \<in> set (fst (configureLoop env vc locs))))"
proof (induction locs)
  case Nil
  then show ?case by simp
next
  case (Cons loc rest)
  obtain n' u' where loc: "loc = (n', u')" by (cases loc)
  show ?case
  proof (cases rule: configureLoop_Cons_cases [of env n' u' vc rest])
    case (build_failed cs e)
    with Cons.prems show ?thesis by (simp add: loc)
  next
    case (add_failed cs vs e)
    with Cons.prems show ?thesis by (simp add: loc)
  next
    case (added cs vs)
    show ?thesis
    proof (cases "(n, u) = (n', u')")
      case True
      with added volumeStoreOf_built [of env n' u' cs vs] show ?thesis
        by (auto simp: loc)
    next
      case False
      with Cons.prems added have "snd (configureLoop env vc rest) = None" "(n, u) \<in> set rest"
        by (auto simp: loc)
      from Cons.IH [OF this] added show ?thesis
        by (auto simp: loc)
    qed
  qed
qed

text \<open>
  C4. configureVolumeStores chooses the constructor by the scheme of the location's URL.
  In every run: \<^verbatim>\<open>nfs.NewVolumeStore\<close> is called only for a configured location with scheme
  "nfs" (with a mount on that URL) and \<^verbatim>\<open>vsphere.NewVolumeStore\<close> only for one with
  scheme "ds" (with the datastore helper of that URL), each under the location's name; and
  every store a constructor has built is passed to AddStore under that name. When the
  function returns no error, every configured location has been built by the
  constructor of its scheme and registered. A location whose scheme is neither "nfs" nor
  "ds" makes the function return an error.
\<close>

theorem configureVolumeStores_by_scheme:
  assumes "configureVolumeStores env locs = (calls, err, vc)"
  shows
    "(\<forall>name mnt. Call_nfs_NewVolumeStore name mnt \<in> set calls \<longrightarrow>
        (\<exists>u. (name, u) \<in> set locs \<and> Scheme u = ''nfs'' \<and> Target mnt = u)) \<and>
     (\<forall>name d. Call_vsphere_NewVolumeStore name d \<in> set calls \<longrightarrow>
        (\<exists>u. (name, u) \<in> set locs \<and> Scheme u = ''ds'' \<and>
             datastore_NewHelperFromURL env u = Inr d)) \<and>
     (\<forall>name mnt vs. Call_nfs_NewVolumeStore name mnt \<in> set calls \<and>
        nfs_NewVolumeStore env name mnt = Inr vs \<longrightarrow> Call_AddStore name vs \<in> set calls) \<and>
     (\<forall>name d vs. Call_vsphere_NewVolumeStore name d \<in> set calls \<and>
        vsphere_NewVolumeStore env name d = Inr vs \<longrightarrow> Call_AddStore name vs \<in> set calls) \<and>
     (err = None \<longrightarrow>
        (\<forall>(name, u) \<in> set locs.
           (Scheme u = ''nfs'' \<and>
              (\<exists>mnt vs. Target mnt = u \<and> Call_nfs_NewVolumeStore name mnt \<in> set calls \<and>
                 nfs_NewVolumeStore env name mnt = Inr vs \<and> Call_AddStore name vs \<in> set calls)) \<or>
           (Scheme u = ''ds'' \<and>
              (\<exists>d vs. datastore_NewHelperFromURL env u = Inr d \<and>
                 Call_vsphere_NewVolumeStore name d \<in> set calls \<and>
                 vsphere_NewVolumeStore env name d = Inr vs \<and>
                 Call_AddStore name vs \<in> set calls)))) \<and>
     ((\<exists>(name, u) \<in> set locs. Scheme u \<noteq> ''nfs'' \<and> Scheme u \<noteq> ''ds'') \<longrightarrow> err \<noteq> None)"
proof -
  let ?loop = "configureLoop env (NewVolumeLookupCache env) locs"
  from assms have calls: "calls = Call_NewVolumeLookupCache # fst ?loop"
    and err: "err = snd ?loop"
    by (auto simp: configureVolumeStores_def Let_def split: prod.splits)
  have in_calls: "\<And>c. c \<noteq> Call_NewVolumeLookupCache \<Longrightarrow> c \<in> set calls \<longleftrightarrow> c \<in> set (fst ?loop)"
    by (auto simp: calls)
  have a: "\<forall>name mnt. Call_nfs_NewVolumeStore name mnt \<in> set calls \<longrightarrow>
             (\<exists>u. (name, u) \<in> set locs \<and> Scheme u = ''nfs'' \<and> Target mnt = u)"
    using configureLoop_nfs_call [of _ _ env "NewVolumeLookupCache env" locs]
    by (simp add: in_calls)
  have b: "\<forall>name d. Call_vsphere_NewVolumeStore name d \<in> set calls \<longrightarrow>
             (\<exists>u. (name, u) \<in> set locs \<and> Scheme u = ''ds'' \<and>
                  datastore_NewHelperFromURL env u = Inr d)"
    using configureLoop_vsphere_call [of _ _ env "NewVolumeLookupCache env" locs]
    by (simp add: in_calls)
  have c: "\<forall>name mnt vs. Call_nfs_NewVolumeStore name mnt \<in> set calls \<and>
             nfs_NewVolumeStore env name mnt = Inr vs \<longrightarrow> Call_AddStore name vs \<in> set calls"
    using configureLoop_nfs_registered [of _ _ env "NewVolumeLookupCache env" locs]
    by (auto simp: in_calls)
  have d: "\<forall>name d vs. Call_vsphere_NewVolumeStore name d \<in> set calls \<and>
             vsphere_NewVolumeStore env name d = Inr vs \<longrightarrow> Call_AddStore name vs \<in> set calls"
    using configureLoop_vsphere_registered [of _ _ env "NewVolumeLookupCache env" locs]
    by (auto simp: in_calls)
  have e: "err = None \<longrightarrow>
        (\<forall>(name, u) \<in> set locs.
           (Scheme u = ''nfs'' \<and>
              (\<exists>mnt vs. Target mnt = u \<and> Call_nfs_NewVolumeStore name mnt \<in> set calls \<and>
                 nfs_NewVolumeStore env name mnt = Inr vs \<and> Call_AddStore name vs \<in> set calls)) \<or>
           (Scheme u = ''ds'' \<and>
              (\<exists>d vs. datastore_NewHelperFromURL env u = Inr d \<and>
                 Call_vsphere_NewVolumeStore name d \<in> set calls \<and>
                 vsphere_NewVolumeStore env name d = Inr vs \<and>
                 Call_AddStore name vs \<in> set calls)))"
    using configureLoop_success [of env "NewVolumeLookupCache env" locs]
    by (simp add: in_calls err split_beta)
  have f: "(\<exists>(name, u) \<in> set locs. Scheme u \<noteq> ''nfs'' \<and> Scheme u \<noteq> ''ds'') \<longrightarrow> err \<noteq> None"
    using configureLoop_unknown_scheme [of _ _ locs env "NewVolumeLookupCache env"]
    by (auto simp: err)
  from a b c d e f show ?thesis by (intro conjI)
qed

lemma sample_configureVolumeStores:
  "configureVolumeStores sample_env sample_locations =
     ([Call_NewVolumeLookupCache,
       Call_nfs_NewVolumeStore ''v1''
         \<lparr>Target = sample_url ''nfs'' ''filer'', Hostname = ''vic'', UID = 1000, GID = 1000\<rparr>,
       Call_AddStore ''v1'' ''nfs store v1'',
       Call_datastore_NewHelperFromURL (sample_url ''ds'' ''datastore1''),
       Call_vsphere_NewVolumeStore ''v2'' ''helper ds://datastore1/store'',
       Call_AddStore ''v2'' ''vsphere store v2''],
      None, ''volume cache'')"
  by (simp add: configureVolumeStores_def volumeStoreOf_def sample_env_def sample_locations_def
      sample_url_def nfs_NewMount_def nfsScheme_def dsScheme_def Let_def)

lemma sample_configureVolumeStores_unknown:
  "configureVolumeStores sample_env (sample_locations @ [(''v3'', sample_url ''http'' ''web'')]) =
     ([Call_NewVolumeLookupCache,
       Call_nfs_NewVolumeStore ''v1''
         \<lparr>Target = sample_url ''nfs'' ''filer'', Hostname = ''vic'', UID = 1000, GID = 1000\<rparr>,
       Call_AddStore ''v1'' ''nfs store v1'',
       Call_datastore_NewHelperFromURL (sample_url ''ds'' ''datastore1''),
       Call_vsphere_NewVolumeStore ''v2'' ''helper ds://datastore1/store'',
       Call_AddStore ''v2'' ''vsphere store v2''],
      Some (other_error ''unknown scheme for http://web/store''), ''volume cache'')"
  by (simp add: configureVolumeStores_def volumeStoreOf_def sample_env_def sample_locations_def
      sample_url_def nfs_NewMount_def nfsScheme_def dsScheme_def fmt_Errorf_def Let_def)

theorem configureVolumeStores_by_scheme_witness:
  "fst (snd (configureVolumeStores sample_env sample_locations)) = None \<and>
   Call_AddStore ''v1'' ''nfs store v1'' \<in> set (fst (configureVolumeStores sample_env sample_locations)) \<and>
   Call_AddStore ''v2'' ''vsphere store v2''
     \<in> set (fst (configureVolumeStores sample_env sample_locations)) \<and>
   fst (snd (configureVolumeStores sample_env
               (sample_locations @ [(''v3'', sample_url ''http'' ''web'')]))) \<noteq> None"
proof -
  note ok = configureVolumeStores_by_scheme [OF sample_configureVolumeStores]
  note bad = configureVolumeStores_by_scheme [OF sample_configureVolumeStores_unknown]
  have nfs: "nfs_NewVolumeStore sample_env ''v1''
               \<lparr>Target = sample_url ''nfs'' ''filer'', Hostname = ''vic'', UID = 1000, GID = 1000\<rparr> =
             Inr ''nfs store v1''"
    by (simp add: sample_env_def)
  have vsphere: "vsphere_NewVolumeStore sample_env ''v2'' ''helper ds://datastore1/store'' =
                 Inr ''vsphere store v2''"
    by (simp add: sample_env_def)
  have "Call_AddStore ''v1'' ''nfs store v1''
          \<in> set (fst (configureVolumeStores sample_env sample_locations))"
    using ok [THEN conjunct2, THEN conjunct2, THEN conjunct1, rule_format, OF conjI, OF _ nfs]
    by (simp add: sample_configureVolumeStores)
  moreover have "Call_AddStore ''v2'' ''vsphere store v2''
          \<in> set (fst (configureVolumeStores sample_env sample_locations))"
    using ok [THEN conjunct2, THEN conjunct2, THEN conjunct2, THEN conjunct1, rule_format,
              OF conjI, OF _ vsphere]
    by (simp add: sample_configureVolumeStores)
  moreover have "Some (other_error ''unknown scheme for http://web/store'') \<noteq> None"
    using bad by simp
  ultimately show ?thesis
    by (simp add: sample_configureVolumeStores sample_configureVolumeStores_unknown)
qed

subsection \<open>Configure and the image stores\<close>

text \<open>
  C5. Configure with several image-store locations does what it does with the first one
  alone: \<^verbatim>\<open>vsphere.NewImageStore\<close> is called on the first location and on no other, and
  the image cache of the configured receiver is the lookup cache made from the store
  that call returned.
\<close>

theorem Configure_first_image_store:
  "Configure env (imageStoreURL # others) locs = Configure env [imageStoreURL] locs \<and>
   (\<forall>u. Call_vsphere_NewImageStore u \<in> set (fst (Configure env (imageStoreURL # others) locs)) \<longrightarrow>
        u = imageStoreURL) \<and>
   (\<forall>h. snd (Configure env (imageStoreURL # others) locs) = Return h \<longrightarrow>
        (\<exists>ds. vsphere_NewImageStore env imageStoreURL = Inr ds \<and>
              imageCache h = NewLookupCache env ds \<and>
              Call_NewLookupCache ds \<in> set (fst (Configure env (imageStoreURL # others) locs))))"
proof (intro conjI allI impI)
  show "Configure env (imageStoreURL # others) locs = Configure env [imageStoreURL] locs"
    by (simp add: Configure_def)
next
  fix u
  assume "Call_vsphere_NewImageStore u \<in> set (fst (Configure env (imageStoreURL # others) locs))"
  then show "u = imageStoreURL"
    using configureLoop_no_NewImageStore [of u env "NewVolumeLookupCache env" locs]
    by (auto simp: Configure_def configureVolumeStores_def Let_def
        split: sum.splits prod.splits option.splits)
next
  fix h
  assume "snd (Configure env (imageStoreURL # others) locs) = Return h"
  then show "\<exists>ds. vsphere_NewImageStore env imageStoreURL = Inr ds \<and>
              imageCache h = NewLookupCache env ds \<and>
              Call_NewLookupCache ds \<in> set (fst (Configure env (imageStoreURL # others) locs))"
    by (auto simp: Configure_def split: sum.splits prod.splits option.splits)
qed

theorem Configure_first_image_store_witness:
  "Configure sample_env [sample_url ''ds'' ''images'', sample_url ''ds'' ''spare''] sample_locations =
     Configure sample_env [sample_url ''ds'' ''images''] sample_locations \<and>
   snd (Configure sample_env [sample_url ''ds'' ''images'', sample_url ''ds'' ''spare'']
          sample_locations) =
     Return \<lparr>imageCache = ''cache of imagestore ds://images/store'',
             volumeCache = ''volume cache''\<rparr> \<and>
   vsphere_NewImageStore sample_env (sample_url ''ds'' ''images'') =
     Inr ''imagestore ds://images/store''"
proof -
  have s: "vsphere_NewImageStore sample_env (sample_url ''ds'' ''images'') =
             Inr ''imagestore ds://images/store''"
    by (simp add: sample_env_def sample_url_def)
  have c: "NewLookupCache sample_env ''imagestore ds://images/store'' =
             ''cache of imagestore ds://images/store''"
    by (simp add: sample_env_def)
  have r: "snd (Configure sample_env [sample_url ''ds'' ''images'', sample_url ''ds'' ''spare'']
             sample_locations) =
           Return \<lparr>imageCache = ''cache of imagestore ds://images/store'',
                   volumeCache = ''volume cache''\<rparr>"
    by (simp add: Configure_def s c sample_configureVolumeStores)
  from Configure_first_image_store
         [of sample_env "sample_url ''ds'' ''images''" "[sample_url ''ds'' ''spare'']"
             sample_locations]
  have "Configure sample_env [sample_url ''ds'' ''images'', sample_url ''ds'' ''spare'']
          sample_locations =
        Configure sample_env [sample_url ''ds'' ''images''] sample_locations"
    by (rule conjunct1)
  with r s show ?thesis by simp
qed

end
